theory Spec2Isabelle
  imports Complex_Main "HOL-Library.Sublist"
begin

section \<open>The values of the configuration module\<close>

text \<open>
  The repository is one file, \<^verbatim>\<open>ecosystem.config.js\<close>, whose only statement assigns an
  object literal to \<^verbatim>\<open>module.exports\<close>. The literal is built from strings, numbers,
  booleans, one array and nested objects, so a value of the module is one of:
  \<^item> a string;
  \<^item> a number. JavaScript has a single number type; every number of the file is written
    as a decimal literal, and the model keeps its exact value as a rational, so that
    being an integer is a property to prove and not a consequence of the type;
  \<^item> a boolean;
  \<^item> an array, the list of its elements;
  \<^item> an object, the list of its properties in the order they are written.
\<close>

datatype js_value =
    JString string
  | JNumber rat
  | JBoolean bool
  | JArray "js_value list"
  | JObject "(string \<times> js_value) list"

text \<open>
  The exported value, property by property as the file has it (lines 1 to 26).
\<close>

definition module_exports :: js_value where
  "module_exports = JObject [
     (''apps'', JArray [
       JObject [
         (''name'', JString ''uml-mail-fastapi''),
         (''script'', JString ''main.py''),
         (''interpreter'', JString ''python''),
         (''instances'', JNumber 1),
         (''exec_mode'', JString ''fork''),
         (''env'', JObject [
           (''NODE_ENV'', JString ''production''),
           (''PORT'', JNumber 3001)
         ]),
         (''error_file'', JString ''./logs/error.log''),
         (''out_file'', JString ''./logs/out.log''),
         (''log_file'', JString ''./logs/combined.log''),
         (''time_format'', JString ''YYYY-MM-DD HH:mm:ss Z''),
         (''merge_logs'', JBoolean True),
         (''autorestart'', JBoolean True),
         (''max_memory_restart'', JString ''500M''),
         (''max_restarts'', JNumber 10),
         (''min_uptime'', JString ''10s''),
         (''listen_timeout'', JNumber 10000),
         (''kill_timeout'', JNumber 5000)
       ]
     ])
   ]"

subsection \<open>Reading the exported value\<close>

text \<open>
  Property access \<^verbatim>\<open>v.k\<close>. In an object literal that writes a key twice the later
  property wins, so the properties are searched from the last one. A missing property
  and a property of a value that is no object are \<open>None\<close> (JavaScript's
  \<^verbatim>\<open>undefined\<close>).
\<close>

fun get_prop :: "string \<Rightarrow> js_value \<Rightarrow> js_value option" where
  "get_prop k (JObject ps) = map_of (rev ps) k"
| "get_prop k _ = None"

text \<open>The keys of an object, in the order they are written.\<close>

fun keys :: "js_value \<Rightarrow> string list" where
  "keys (JObject ps) = map fst ps"
| "keys _ = []"

text \<open>\<^verbatim>\<open>module.exports.apps\<close>, when it is an array.\<close>

definition apps :: "js_value list option" where
  "apps = (case get_prop ''apps'' module_exports of
             Some (JArray ds) \<Rightarrow> Some ds
           | _ \<Rightarrow> None)"

text \<open>The app entry: the element of \<^verbatim>\<open>apps\<close> when there is exactly one.\<close>

definition app_entry :: "js_value option" where
  "app_entry = (case apps of Some [d] \<Rightarrow> Some d | _ \<Rightarrow> None)"

text \<open>A field of the app entry, and the same read as a string, a number or a boolean.\<close>

definition field :: "string \<Rightarrow> js_value option" where
  "field k = (case app_entry of Some d \<Rightarrow> get_prop k d | None \<Rightarrow> None)"

definition string_field :: "string \<Rightarrow> string option" where
  "string_field k = (case field k of Some (JString s) \<Rightarrow> Some s | _ \<Rightarrow> None)"

definition number_field :: "string \<Rightarrow> rat option" where
  "number_field k = (case field k of Some (JNumber n) \<Rightarrow> Some n | _ \<Rightarrow> None)"

definition boolean_field :: "string \<Rightarrow> bool option" where
  "boolean_field k = (case field k of Some (JBoolean b) \<Rightarrow> Some b | _ \<Rightarrow> None)"

text \<open>The properties of \<^verbatim>\<open>env\<close>, the environment mapping of the app entry.\<close>

definition env_prop :: "string \<Rightarrow> js_value option" where
  "env_prop k = (case field ''env'' of Some e \<Rightarrow> get_prop k e | None \<Rightarrow> None)"

text \<open>
  Every number of a value, with the path of keys and array indices that leads to it,
  in the order the numbers are written.
\<close>

datatype step = Key string | Index nat

fun numbers :: "step list \<Rightarrow> js_value \<Rightarrow> (step list \<times> rat) list"
  and numbers_elements :: "step list \<Rightarrow> nat \<Rightarrow> js_value list \<Rightarrow> (step list \<times> rat) list"
  and numbers_props :: "step list \<Rightarrow> (string \<times> js_value) list \<Rightarrow> (step list \<times> rat) list"
where
  "numbers p (JString s) = []"
| "numbers p (JNumber n) = [(p, n)]"
| "numbers p (JBoolean b) = []"
| "numbers p (JArray vs) = numbers_elements p 0 vs"
| "numbers p (JObject ps) = numbers_props p ps"
| "numbers_elements p i [] = []"
| "numbers_elements p i (v # vs) = numbers (p @ [Index i]) v @ numbers_elements p (Suc i) vs"
| "numbers_props p [] = []"
| "numbers_props p ((k, v) # ps) = numbers (p @ [Key k]) v @ numbers_props p ps"

section \<open>The configuration document of the specification\<close>

text \<open>
  The fields the specification lists as consumed at load time (section 6), in its order.
\<close>

definition consumed_fields :: "string list" where
  "consumed_fields =
     [''name'', ''script'', ''interpreter'', ''instances'', ''exec_mode'', ''env'',
      ''error_file'', ''out_file'', ''log_file'', ''time_format'', ''merge_logs'',
      ''autorestart'', ''max_memory_restart'', ''max_restarts'', ''min_uptime'',
      ''listen_timeout'', ''kill_timeout'']"

text \<open>The two execution modes of the specification.\<close>

definition exec_modes :: "string set" where
  "exec_modes = {''fork'', ''cluster''}"

text \<open>
  Size and duration strings. The specification gives both by example only
  (\<^verbatim>\<open>"500M"\<close>, \<^verbatim>\<open>"10s"\<close>); they are read here as a non-empty run of decimal digits
  followed by a unit: K, M or G for a size, ms, s, m or h for a duration.
\<close>

definition digit :: "char \<Rightarrow> bool" where
  "digit c = (c \<in> set ''0123456789'')"

definition amount :: "string \<Rightarrow> string" where
  "amount s = takeWhile digit s"

definition unit_suffix :: "string \<Rightarrow> string" where
  "unit_suffix s = dropWhile digit s"

definition size_string :: "string \<Rightarrow> bool" where
  "size_string s = (amount s \<noteq> [] \<and> unit_suffix s \<in> {''K'', ''M'', ''G''})"

definition duration_string :: "string \<Rightarrow> bool" where
  "duration_string s = (amount s \<noteq> [] \<and> unit_suffix s \<in> {''ms'', ''s'', ''m'', ''h''})"

text \<open>A count of milliseconds: a whole number that is not negative.\<close>

definition milliseconds :: "rat \<Rightarrow> bool" where
  "milliseconds n = (n \<in> \<int> \<and> 0 \<le> n)"

definition positive_integer :: "rat \<Rightarrow> bool" where
  "positive_integer n = (n \<in> \<int> \<and> 0 < n)"

text \<open>A field that is a string, or a number, of a given shape.\<close>

definition string_field_is :: "(string \<Rightarrow> bool) \<Rightarrow> string \<Rightarrow> bool" where
  "string_field_is P k = (case string_field k of Some s \<Rightarrow> P s | None \<Rightarrow> False)"

definition number_field_is :: "(rat \<Rightarrow> bool) \<Rightarrow> string \<Rightarrow> bool" where
  "number_field_is P k = (case number_field k of Some n \<Rightarrow> P n | None \<Rightarrow> False)"

fun is_object :: "js_value \<Rightarrow> bool" where
  "is_object (JObject ps) = True"
| "is_object _ = False"

section \<open>Paths of the log files\<close>

text \<open>
  A path is split at its slashes. Its lexical normal form drops the empty and the
  \<^verbatim>\<open>.\<close> components and lets a \<^verbatim>\<open>..\<close> cancel the directory before it; a \<^verbatim>\<open>..\<close> with
  nothing before it stays, since a relative path may leave its starting directory.
  Two relative paths with different normal forms name different directory entries of
  the same working directory.
\<close>

fun split_on :: "char \<Rightarrow> string \<Rightarrow> string list" where
  "split_on c [] = [[]]"
| "split_on c (x # xs) =
     (if x = c then [] # split_on c xs
      else (case split_on c xs of
              s # ss \<Rightarrow> (x # s) # ss
            | [] \<Rightarrow> [[x]]))"

definition absolute :: "string \<Rightarrow> bool" where
  "absolute p = (case p of c # cs \<Rightarrow> c = CHR ''/'' | [] \<Rightarrow> False)"

fun resolve :: "string list \<Rightarrow> string list \<Rightarrow> string list" where
  "resolve st [] = rev st"
| "resolve st (c # cs) =
     (if c = [] \<or> c = ''.'' then resolve st cs
      else if c = ''..'' then
        (case st of
           [] \<Rightarrow> resolve [c] cs
         | t # ts \<Rightarrow> if t = ''..'' then resolve (c # st) cs else resolve ts cs)
      else resolve (c # st) cs)"

definition normal_form :: "string \<Rightarrow> string list" where
  "normal_form p = resolve [] (split_on CHR ''/'' p)"

text \<open>The directory part of a normal form: all components but the last.\<close>

definition directory :: "string \<Rightarrow> string list" where
  "directory p = butlast (normal_form p)"

text \<open>
  The three log targets of the app entry: the error stream, the output stream and the
  combined log, each \<open>None\<close> when the field is missing or is no string.
\<close>

definition log_targets :: "string option list" where
  "log_targets = map string_field [''error_file'', ''out_file'', ''log_file'']"

text \<open>A target directly inside the directory \<^verbatim>\<open>./logs/\<close> of the working directory.\<close>

definition inside_logs :: "string option \<Rightarrow> bool" where
  "inside_logs t =
     (case t of
        Some p \<Rightarrow> \<not> absolute p \<and> prefix ''./logs/'' p \<and> directory p = [''logs'']
      | None \<Rightarrow> False)"

section \<open>The text of the file\<close>

text \<open>
  The characters of \<^verbatim>\<open>ecosystem.config.js\<close>, one literal for each line of the file.
  The last line, \<^verbatim>\<open>};\<close>, has no line terminator after it.
\<close>

definition ecosystem_config_js :: string where
  "ecosystem_config_js =
     ''module.exports = {\<newline>'' @
     ''  apps: [\<newline>'' @
     ''    {\<newline>'' @
     ''      name: 'uml-mail-fastapi',\<newline>'' @
     ''      script: 'main.py',\<newline>'' @
     ''      interpreter: 'python',\<newline>'' @
     ''      instances: 1,\<newline>'' @
     ''      exec_mode: 'fork',\<newline>'' @
     ''      env: {\<newline>'' @
     ''        NODE_ENV: 'production',\<newline>'' @
     ''        PORT: 3001\<newline>'' @
     ''      },\<newline>'' @
     ''      error_file: './logs/error.log',\<newline>'' @
     ''      out_file: './logs/out.log',\<newline>'' @
     ''      log_file: './logs/combined.log',\<newline>'' @
     ''      time_format: 'YYYY-MM-DD HH:mm:ss Z',\<newline>'' @
     ''      merge_logs: true,\<newline>'' @
     ''      autorestart: true,\<newline>'' @
     ''      max_memory_restart: '500M',\<newline>'' @
     ''      max_restarts: 10,\<newline>'' @
     ''      min_uptime: '10s',\<newline>'' @
     ''      listen_timeout: 10000,\<newline>'' @
     ''      kill_timeout: 5000\<newline>'' @
     ''    }\<newline>'' @
     ''  ]\<newline>'' @
     ''};''"

text \<open>
  The lines of a text: its segments between line terminators. A terminator at the very
  end of the text closes the last line and opens no further one.
\<close>

definition lines_of :: "string \<Rightarrow> string list" where
  "lines_of s =
     (let segs = split_on CHR ''\<newline>'' s
      in if last segs = [] then butlast segs else segs)"

section \<open>Properties of the exported value\<close>

subsection \<open>Evaluating the accessors\<close>

lemma apps_value:
  "apps = Some [
       JObject [
         (''name'', JString ''uml-mail-fastapi''),
         (''script'', JString ''main.py''),
         (''interpreter'', JString ''python''),
         (''instances'', JNumber 1),
         (''exec_mode'', JString ''fork''),
         (''env'', JObject [
           (''NODE_ENV'', JString ''production''),
           (''PORT'', JNumber 3001)
         ]),
         (''error_file'', JString ''./logs/error.log''),
         (''out_file'', JString ''./logs/out.log''),
         (''log_file'', JString ''./logs/combined.log''),
         (''time_format'', JString ''YYYY-MM-DD HH:mm:ss Z''),
         (''merge_logs'', JBoolean True),
         (''autorestart'', JBoolean True),
         (''max_memory_restart'', JString ''500M''),
         (''max_restarts'', JNumber 10),
         (''min_uptime'', JString ''10s''),
         (''listen_timeout'', JNumber 10000),
         (''kill_timeout'', JNumber 5000)
       ]]"
  unfolding apps_def module_exports_def by simp

lemma app_entry_value:
  "app_entry = Some (
       JObject [
         (''name'', JString ''uml-mail-fastapi''),
         (''script'', JString ''main.py''),
         (''interpreter'', JString ''python''),
         (''instances'', JNumber 1),
         (''exec_mode'', JString ''fork''),
         (''env'', JObject [
           (''NODE_ENV'', JString ''production''),
           (''PORT'', JNumber 3001)
         ]),
         (''error_file'', JString ''./logs/error.log''),
         (''out_file'', JString ''./logs/out.log''),
         (''log_file'', JString ''./logs/combined.log''),
         (''time_format'', JString ''YYYY-MM-DD HH:mm:ss Z''),
         (''merge_logs'', JBoolean True),
         (''autorestart'', JBoolean True),
         (''max_memory_restart'', JString ''500M''),
         (''max_restarts'', JNumber 10),
         (''min_uptime'', JString ''10s''),
         (''listen_timeout'', JNumber 10000),
         (''kill_timeout'', JNumber 5000)
       ])"
  unfolding app_entry_def apps_value by simp

lemma name_value: "string_field ''name'' = Some ''uml-mail-fastapi''"
  unfolding string_field_def field_def app_entry_value by simp

lemma instances_value: "number_field ''instances'' = Some 1"
  unfolding number_field_def field_def app_entry_value by simp

lemma exec_mode_value: "string_field ''exec_mode'' = Some ''fork''"
  unfolding string_field_def field_def app_entry_value by simp

lemma error_file_value: "string_field ''error_file'' = Some ''./logs/error.log''"
  unfolding string_field_def field_def app_entry_value by simp

lemma out_file_value: "string_field ''out_file'' = Some ''./logs/out.log''"
  unfolding string_field_def field_def app_entry_value by simp

lemma log_file_value: "string_field ''log_file'' = Some ''./logs/combined.log''"
  unfolding string_field_def field_def app_entry_value by simp

lemma merge_logs_value: "boolean_field ''merge_logs'' = Some True"
  unfolding boolean_field_def field_def app_entry_value by simp

lemma autorestart_value: "boolean_field ''autorestart'' = Some True"
  unfolding boolean_field_def field_def app_entry_value by simp

lemma max_memory_restart_value: "string_field ''max_memory_restart'' = Some ''500M''"
  unfolding string_field_def field_def app_entry_value by simp

lemma max_restarts_value: "number_field ''max_restarts'' = Some 10"
  unfolding number_field_def field_def app_entry_value by simp

lemma min_uptime_value: "string_field ''min_uptime'' = Some ''10s''"
  unfolding string_field_def field_def app_entry_value by simp

lemma listen_timeout_value: "number_field ''listen_timeout'' = Some 10000"
  unfolding number_field_def field_def app_entry_value by simp

lemma kill_timeout_value: "number_field ''kill_timeout'' = Some 5000"
  unfolding number_field_def field_def app_entry_value by simp

lemma env_value:
  "field ''env'' =
     Some (JObject [(''NODE_ENV'', JString ''production''), (''PORT'', JNumber 3001)])"
  unfolding field_def app_entry_value by simp

lemma node_env_value: "env_prop ''NODE_ENV'' = Some (JString ''production'')"
  unfolding env_prop_def env_value by simp

lemma port_value: "env_prop ''PORT'' = Some (JNumber 3001)"
  unfolding env_prop_def env_value by simp

subsection \<open>The fields of the configuration document\<close>

lemma entry_keys: "map_option keys app_entry = Some consumed_fields"
  unfolding consumed_fields_def app_entry_value by simp

lemma fields_provided: "list_all (\<lambda>k. field k \<noteq> None) consumed_fields"
  unfolding consumed_fields_def field_def app_entry_value by simp

lemma exec_mode_shape: "string_field_is (\<lambda>s. s \<in> exec_modes) ''exec_mode''"
  unfolding string_field_is_def exec_mode_value exec_modes_def by simp

lemma env_shape: "map_option is_object (field ''env'') = Some True"
  unfolding env_value by simp

lemma merge_logs_shape: "boolean_field ''merge_logs'' \<noteq> None"
  unfolding merge_logs_value by simp

lemma autorestart_shape: "boolean_field ''autorestart'' \<noteq> None"
  unfolding autorestart_value by simp

lemma size_500M: "size_string ''500M''"
  unfolding size_string_def amount_def unit_suffix_def digit_def by simp

lemma duration_10s: "duration_string ''10s''"
  unfolding duration_string_def amount_def unit_suffix_def digit_def by simp

lemma max_memory_restart_shape: "string_field_is size_string ''max_memory_restart''"
  unfolding string_field_is_def max_memory_restart_value by (simp add: size_500M)

lemma max_restarts_shape: "number_field_is (\<lambda>n. n \<in> \<int>) ''max_restarts''"
  unfolding number_field_is_def max_restarts_value by simp

lemma min_uptime_shape: "string_field_is duration_string ''min_uptime''"
  unfolding string_field_is_def min_uptime_value by (simp add: duration_10s)

lemma listen_timeout_shape: "number_field_is milliseconds ''listen_timeout''"
  unfolding number_field_is_def listen_timeout_value milliseconds_def by simp

lemma kill_timeout_shape: "number_field_is milliseconds ''kill_timeout''"
  unfolding number_field_is_def kill_timeout_value milliseconds_def by simp

text \<open>
  Claim C1. The single app entry of the configuration document provides every field the
  specification lists as consumed at load time (and has no other key), with the stated
  shapes: \<^verbatim>\<open>exec_mode\<close> is one of fork and cluster, \<^verbatim>\<open>env\<close> is a mapping,
  \<^verbatim>\<open>merge_logs\<close> and \<^verbatim>\<open>autorestart\<close> are booleans, \<^verbatim>\<open>max_memory_restart\<close> is a size
  string, \<^verbatim>\<open>max_restarts\<close> is an integer, \<^verbatim>\<open>min_uptime\<close> is a duration string, and
  \<^verbatim>\<open>listen_timeout\<close> and \<^verbatim>\<open>kill_timeout\<close> are counts of milliseconds.
\<close>

theorem app_entry_provides_consumed_fields:
  "map_option keys app_entry = Some consumed_fields
   \<and> list_all (\<lambda>k. field k \<noteq> None) consumed_fields
   \<and> string_field_is (\<lambda>s. s \<in> exec_modes) ''exec_mode''
   \<and> map_option is_object (field ''env'') = Some True
   \<and> boolean_field ''merge_logs'' \<noteq> None
   \<and> boolean_field ''autorestart'' \<noteq> None
   \<and> string_field_is size_string ''max_memory_restart''
   \<and> number_field_is (\<lambda>n. n \<in> \<int>) ''max_restarts''
   \<and> string_field_is duration_string ''min_uptime''
   \<and> number_field_is milliseconds ''listen_timeout''
   \<and> number_field_is milliseconds ''kill_timeout''"
  by (intro conjI entry_keys fields_provided exec_mode_shape env_shape merge_logs_shape
      autorestart_shape max_memory_restart_shape max_restarts_shape min_uptime_shape
      listen_timeout_shape kill_timeout_shape)

subsection \<open>One descriptor, one process\<close>

text \<open>
  Claim C8. The \<^verbatim>\<open>apps\<close> array of the exported configuration holds exactly one
  descriptor; its name is \<^verbatim>\<open>'uml-mail-fastapi'\<close>, and it asks for a single process:
  \<^verbatim>\<open>instances\<close> is 1 and \<^verbatim>\<open>exec_mode\<close> is \<^verbatim>\<open>'fork'\<close>.
\<close>

theorem single_descriptor_single_process:
  "map_option length apps = Some 1
   \<and> string_field ''name'' = Some ''uml-mail-fastapi''
   \<and> number_field ''instances'' = Some 1
   \<and> string_field ''exec_mode'' = Some ''fork''"
  unfolding name_value instances_value exec_mode_value
  by (simp add: apps_value)

subsection \<open>The log targets\<close>

lemma log_targets_value:
  "log_targets =
     [Some ''./logs/error.log'', Some ''./logs/out.log'', Some ''./logs/combined.log'']"
  unfolding log_targets_def by (simp add: error_file_value out_file_value log_file_value)

lemma normal_form_error_file: "normal_form ''./logs/error.log'' = [''logs'', ''error.log'']"
  unfolding normal_form_def by simp

lemma normal_form_out_file: "normal_form ''./logs/out.log'' = [''logs'', ''out.log'']"
  unfolding normal_form_def by simp

lemma normal_form_log_file: "normal_form ''./logs/combined.log'' = [''logs'', ''combined.log'']"
  unfolding normal_form_def by simp

lemma log_targets_distinct: "distinct log_targets"
  unfolding log_targets_value by simp

lemma log_targets_inside_logs: "list_all inside_logs log_targets"
  unfolding log_targets_value inside_logs_def absolute_def directory_def
  by (simp add: normal_form_error_file normal_form_out_file normal_form_log_file)

lemma log_targets_normal_forms_distinct:
  "distinct (map (map_option normal_form) log_targets)"
  unfolding log_targets_value
  by (simp add: normal_form_error_file normal_form_out_file normal_form_log_file)

text \<open>
  Claim C9. The three log targets of the descriptor are \<^verbatim>\<open>./logs/error.log\<close>,
  \<^verbatim>\<open>./logs/out.log\<close> and \<^verbatim>\<open>./logs/combined.log\<close>: pairwise distinct relative paths,
  each directly inside \<^verbatim>\<open>./logs/\<close>, and with pairwise distinct normal forms, so no two
  of the error, output and combined streams are written to the same path.
\<close>

theorem log_targets_never_alias:
  "log_targets =
     [Some ''./logs/error.log'', Some ''./logs/out.log'', Some ''./logs/combined.log'']
   \<and> distinct log_targets
   \<and> list_all inside_logs log_targets
   \<and> distinct (map (map_option normal_form) log_targets)"
  by (intro conjI log_targets_value log_targets_distinct log_targets_inside_logs
      log_targets_normal_forms_distinct)

subsection \<open>Representations of the values\<close>

lemma numbers_value:
  "numbers [] module_exports =
     [([Key ''apps'', Index 0, Key ''instances''], 1),
      ([Key ''apps'', Index 0, Key ''env'', Key ''PORT''], 3001),
      ([Key ''apps'', Index 0, Key ''max_restarts''], 10),
      ([Key ''apps'', Index 0, Key ''listen_timeout''], 10000),
      ([Key ''apps'', Index 0, Key ''kill_timeout''], 5000)]"
  unfolding module_exports_def by simp

lemma numbers_positive:
  "list_all positive_integer (map snd (numbers [] module_exports))"
  unfolding numbers_value positive_integer_def by simp

lemma unit_suffix_10s: "amount ''10s'' = ''10'' \<and> unit_suffix ''10s'' = ''s''"
  unfolding amount_def unit_suffix_def digit_def by simp

lemma unit_suffix_500M: "amount ''500M'' = ''500'' \<and> unit_suffix ''500M'' = ''M''"
  unfolding amount_def unit_suffix_def digit_def by simp

text \<open>
  Claim C10. The descriptor mixes representations: in \<^verbatim>\<open>env\<close>, \<^verbatim>\<open>NODE_ENV\<close> is the
  string \<^verbatim>\<open>'production'\<close> and \<^verbatim>\<open>PORT\<close> is the number 3001; \<^verbatim>\<open>min_uptime\<close> and
  \<^verbatim>\<open>max_memory_restart\<close> are the strings \<^verbatim>\<open>'10s'\<close> and \<^verbatim>\<open>'500M'\<close>, an amount followed by
  a unit, while \<^verbatim>\<open>listen_timeout\<close> and \<^verbatim>\<open>kill_timeout\<close> are the bare numbers 10000 and
  5000; and the numbers of the file are those of \<^verbatim>\<open>instances\<close>, \<^verbatim>\<open>PORT\<close>,
  \<^verbatim>\<open>max_restarts\<close>, \<^verbatim>\<open>listen_timeout\<close> and \<^verbatim>\<open>kill_timeout\<close> and no others, each a
  positive integer.
\<close>

theorem mixed_value_representations:
  "env_prop ''NODE_ENV'' = Some (JString ''production'')
   \<and> env_prop ''PORT'' = Some (JNumber 3001)
   \<and> string_field ''min_uptime'' = Some ''10s''
   \<and> (amount ''10s'' = ''10'' \<and> unit_suffix ''10s'' = ''s'')
   \<and> string_field ''max_memory_restart'' = Some ''500M''
   \<and> (amount ''500M'' = ''500'' \<and> unit_suffix ''500M'' = ''M'')
   \<and> number_field ''listen_timeout'' = Some 10000
   \<and> number_field ''kill_timeout'' = Some 5000
   \<and> map fst (numbers [] module_exports) =
       [[Key ''apps'', Index 0, Key ''instances''],
        [Key ''apps'', Index 0, Key ''env'', Key ''PORT''],
        [Key ''apps'', Index 0, Key ''max_restarts''],
        [Key ''apps'', Index 0, Key ''listen_timeout''],
        [Key ''apps'', Index 0, Key ''kill_timeout'']]
   \<and> list_all positive_integer (map snd (numbers [] module_exports))"
  using node_env_value port_value min_uptime_value unit_suffix_10s
    max_memory_restart_value unit_suffix_500M listen_timeout_value kill_timeout_value
    numbers_positive
  by (simp add: numbers_value)

subsection \<open>The length of the file\<close>

lemma file_size: "length ecosystem_config_js = 592"
  unfolding ecosystem_config_js_def by simp

lemma file_line_terminators:
  "length (filter (\<lambda>c. c = CHR ''\<newline>'') ecosystem_config_js) = 25"
  unfolding ecosystem_config_js_def by simp

lemma file_last_line: "last (lines_of ecosystem_config_js) = ''};''"
  unfolding lines_of_def ecosystem_config_js_def by simp

text \<open>
  Claim C7. The source configuration file is exactly 26 lines long: 25 lines closed by
  a line terminator and a last line, \<^verbatim>\<open>};\<close>, that is not.
\<close>

theorem file_has_26_lines: "length (lines_of ecosystem_config_js) = 26"
  unfolding lines_of_def ecosystem_config_js_def by simp

end
